theory Spec2Isabelle
  imports Main "HOL-Library.Sublist"
begin

section \<open>The notebook document model\<close>

text \<open>
  \<^verbatim>\<open>convert.py\<close> works on whatever \<^verbatim>\<open>json.load\<close> returns: dictionaries, lists,
  strings, numbers, booleans and \<^verbatim>\<open>None\<close>. A dictionary keeps its insertion order,
  so it is an association list; \<^verbatim>\<open>json.load\<close> never produces a repeated key.
  A Python \<^verbatim>\<open>str\<close> is carried as the bytes of its UTF-8 encoding (a \<open>string\<close>);
  the program only concatenates strings, searches an ASCII substring, splits at line
  boundaries and percent-encodes the UTF-8 bytes, and all four read the same on the bytes.
  Strings holding lone surrogates have no UTF-8 encoding and are outside the model.
  A float is carried as its literal: the program never looks inside a number.
\<close>

datatype json =
    JNull
  | JBool bool
  | JInt int
  | JFloat string
  | JStr string
  | JArr "json list"
  | JObj "(string \<times> json) list"

text \<open>The exceptions the transformation itself can raise on a dynamically ill-typed tree.\<close>

datatype py_error = TypeError | AttributeError

type_synonym 'a result = "py_error + 'a"

subsection \<open>Dictionaries\<close>

text \<open>\<^verbatim>\<open>d.get(k)\<close>, \<^verbatim>\<open>k in d\<close> and \<^verbatim>\<open>d[k]\<close> on an insertion-ordered dictionary.\<close>

fun dict_get :: "(string \<times> 'v) list \<Rightarrow> string \<Rightarrow> 'v option" where
  "dict_get [] k = None"
| "dict_get ((k', v') # kvs) k = (if k' = k then Some v' else dict_get kvs k)"

text \<open>
  \<^verbatim>\<open>d[k] = v\<close>: an existing key keeps its position and takes the new value, a new key
  goes to the end.
\<close>

fun dict_set :: "(string \<times> 'v) list \<Rightarrow> string \<Rightarrow> 'v \<Rightarrow> (string \<times> 'v) list" where
  "dict_set [] k v = [(k, v)]"
| "dict_set ((k', v') # kvs) k v =
     (if k' = k then (k, v) # kvs else (k', v') # dict_set kvs k v)"

subsection \<open>Strings\<close>

text \<open>\<^verbatim>\<open>needle in hay\<close> on two strings: \<open>needle\<close> occurs in \<open>hay\<close> as a contiguous run.\<close>

fun str_contains :: "string \<Rightarrow> string \<Rightarrow> bool" where
  "str_contains [] needle = (needle = [])"
| "str_contains (c # cs) needle = (prefix needle (c # cs) \<or> str_contains cs needle)"

text \<open>
  The length of the line boundary that starts the string, 0 when none does.
  \<^verbatim>\<open>str.splitlines\<close> breaks at CR LF, LF, CR, VT, FF, the separators 1C, 1D and 1E,
  NEL (U+0085, bytes C2 85), and the line and paragraph separators U+2028 and U+2029
  (bytes E2 80 A8 and E2 80 A9).
\<close>

definition eol_len :: "string \<Rightarrow> nat" where
  "eol_len s =
     (if prefix [CHR 0x0D, CHR 0x0A] s then 2
      else if s \<noteq> [] \<and> hd s \<in> {CHR 0x0A, CHR 0x0D, CHR 0x0B, CHR 0x0C, CHR 0x1C, CHR 0x1D, CHR 0x1E} then 1
      else if prefix [CHR 0xC2, CHR 0x85] s then 2
      else if prefix [CHR 0xE2, CHR 0x80, CHR 0xA8] s \<or> prefix [CHR 0xE2, CHR 0x80, CHR 0xA9] s then 3
      else 0)"

text \<open>
  \<^verbatim>\<open>s.splitlines(keepends=True)\<close>, with the line read so far in \<open>cur\<close>: every line keeps
  its terminator, and a last line without one is kept when it is not empty.
\<close>

function splitlines_from :: "string \<Rightarrow> string \<Rightarrow> string list" where
  "splitlines_from cur s =
     (if s = [] then (if cur = [] then [] else [cur])
      else if eol_len s = 0 then splitlines_from (cur @ [hd s]) (tl s)
      else (cur @ take (eol_len s) s) # splitlines_from [] (drop (eol_len s) s))"
  by pat_completeness auto
termination
proof (relation "measure (\<lambda>(cur, s). length s)")
  show "wf (measure (\<lambda>(cur, s). length s))" by simp
next
  fix cur s :: string
  assume "s \<noteq> []"
  then show "((cur @ [hd s], tl s), cur, s) \<in> measure (\<lambda>(cur, s). length s)"
    by (cases s) simp_all
next
  fix cur s :: string
  assume "s \<noteq> []" "eol_len s \<noteq> 0"
  then show "(([], drop (eol_len s) s), cur, s) \<in> measure (\<lambda>(cur, s). length s)"
    by (cases s) simp_all
qed

declare splitlines_from.simps [simp del]

definition splitlines :: "string \<Rightarrow> string list" where
  "splitlines s = splitlines_from [] s"

text \<open>
  \<^verbatim>\<open>urllib.parse.quote(branch, safe='')\<close>: the bytes of the UTF-8 encoding, each one
  kept when it is a letter, a digit or one of \<^verbatim>\<open>_.-~\<close>, and written as \<^verbatim>\<open>%XX\<close> with two
  upper-case hexadecimal digits otherwise. With \<^verbatim>\<open>safe=''\<close> the slash is not kept.
\<close>

definition always_safe :: "char \<Rightarrow> bool" where
  "always_safe c =
     (c \<in> set (''ABCDEFGHIJKLMNOPQRSTUVWXYZ'' @ ''abcdefghijklmnopqrstuvwxyz''
                @ ''0123456789'' @ ''_.-~''))"

definition hex_digit :: "nat \<Rightarrow> char" where
  "hex_digit n = ''0123456789ABCDEF'' ! (n mod 16)"

definition quote_byte :: "char \<Rightarrow> string" where
  "quote_byte c =
     (if always_safe c then [c]
      else [CHR ''%'', hex_digit (of_char c div 16), hex_digit (of_char c mod 16)])"

definition quote :: "string \<Rightarrow> string" where
  "quote s = concat (map quote_byte s)"

subsection \<open>Python's protocols on a parsed value\<close>

text \<open>
  \<^verbatim>\<open>for x in v\<close>: a list gives its elements, a dictionary its keys, a string its
  characters, and anything else raises \<^verbatim>\<open>TypeError\<close>. (A string is iterated here byte
  by byte; the program only ever iterates a string where each item then fails the
  same way, whatever it holds.)
\<close>

fun py_iter :: "json \<Rightarrow> json list result" where
  "py_iter (JArr xs) = Inr xs"
| "py_iter (JObj kvs) = Inr (map (\<lambda>kv. JStr (fst kv)) kvs)"
| "py_iter (JStr s) = Inr (map (\<lambda>c. JStr [c]) s)"
| "py_iter _ = Inl TypeError"

section \<open>The badge-line detector\<close>

text \<open>
  \<^verbatim>\<open>is_badge_line(line)\<close> is \<^verbatim>\<open>"colab-badge.svg" in line\<close>: a substring test on a
  string, a membership test on a list or on the keys of a dictionary, and a
  \<^verbatim>\<open>TypeError\<close> on a number, a boolean or \<^verbatim>\<open>None\<close>.
\<close>

fun is_badge_line :: "json \<Rightarrow> bool result" where
  "is_badge_line (JStr s) = Inr (str_contains s ''colab-badge.svg'')"
| "is_badge_line (JArr xs) = Inr (JStr ''colab-badge.svg'' \<in> set xs)"
| "is_badge_line (JObj kvs) = Inr (''colab-badge.svg'' \<in> set (map fst kvs))"
| "is_badge_line _ = Inl TypeError"

section \<open>The cell cleaner\<close>

text \<open>
  The list comprehension \<^verbatim>\<open>[line for line in source if not is_badge_line(line)]\<close>:
  the lines are tested from left to right and the first exception ends it.
\<close>

fun filter_lines :: "json list \<Rightarrow> json list result" where
  "filter_lines [] = Inr []"
| "filter_lines (line # rest) =
     (case is_badge_line line of
        Inl e \<Rightarrow> Inl e
      | Inr b \<Rightarrow>
          (case filter_lines rest of
             Inl e \<Rightarrow> Inl e
           | Inr kept \<Rightarrow> Inr (if \<not> b then line # kept else kept)))"

text \<open>
  \<^verbatim>\<open>cell.get("source", [])\<close>, split into lines when it is a single string.
\<close>

definition cell_source :: "(string \<times> json) list \<Rightarrow> json" where
  "cell_source kvs =
     (let source = (case dict_get kvs ''source'' of None \<Rightarrow> JArr [] | Some v \<Rightarrow> v)
      in case source of
           JStr s \<Rightarrow> JArr (map JStr (splitlines s))
         | _ \<Rightarrow> source)"

text \<open>
  The body of the loop of \<^verbatim>\<open>clean_notebook_cells\<close> for one cell: \<open>Inr (Some c)\<close>
  when \<open>c\<close> is appended to \<^verbatim>\<open>cleaned_cells\<close>, \<open>Inr None\<close> when the cell is dropped,
  \<open>Inl e\<close> when the body raises. A cell that is not a dictionary has no \<^verbatim>\<open>get\<close>.
  \<^verbatim>\<open>len(source)\<close> is the number of items the comprehension went through.
\<close>

definition clean_cell :: "json \<Rightarrow> json option result" where
  "clean_cell cell =
     (case cell of
        JObj kvs \<Rightarrow>
          if dict_get kvs ''cell_type'' \<noteq> Some (JStr ''markdown'') then Inr (Some cell)
          else
            (case py_iter (cell_source kvs) of
               Inl e \<Rightarrow> Inl e
             | Inr source \<Rightarrow>
                 (case filter_lines source of
                    Inl e \<Rightarrow> Inl e
                  | Inr new_source \<Rightarrow>
                      (let was_badge_only =
                             (length source > 0 \<and> length new_source = 0
                              \<and> length source \<noteq> length new_source)
                       in if \<not> was_badge_only
                          then Inr (Some (JObj (dict_set kvs ''source'' (JArr new_source))))
                          else Inr None)))
      | _ \<Rightarrow> Inl AttributeError)"

text \<open>The loop over the cells, with \<^verbatim>\<open>cleaned_cells\<close> as the accumulator.\<close>

fun clean_loop :: "json list \<Rightarrow> json list \<Rightarrow> json list result" where
  "clean_loop [] cleaned_cells = Inr cleaned_cells"
| "clean_loop (cell # cells) cleaned_cells =
     (case clean_cell cell of
        Inl e \<Rightarrow> Inl e
      | Inr None \<Rightarrow> clean_loop cells cleaned_cells
      | Inr (Some c) \<Rightarrow> clean_loop cells (cleaned_cells @ [c]))"

definition clean_notebook_cells :: "json \<Rightarrow> json list result" where
  "clean_notebook_cells cells =
     (case py_iter cells of
        Inl e \<Rightarrow> Inl e
      | Inr cs \<Rightarrow> clean_loop cs [])"

section \<open>The badge cell builder\<close>

definition dq :: string where
  "dq = [CHR 0x22]"

definition image_url :: string where
  "image_url = ''https://colab.research.google.com/assets/colab-badge.svg''"

definition colab_url :: "string \<Rightarrow> string \<Rightarrow> string \<Rightarrow> string" where
  "colab_url repo branch file_path =
     ''https://colab.research.google.com/github/'' @ repo @ ''/blob/'' @ quote branch
       @ ''/'' @ file_path"

definition badge_html :: "string \<Rightarrow> string \<Rightarrow> string \<Rightarrow> string" where
  "badge_html repo branch file_path =
     ''<a href='' @ dq @ colab_url repo branch file_path @ dq
       @ '' target='' @ dq @ ''_parent'' @ dq
       @ ''><img src='' @ dq @ image_url @ dq
       @ '' alt='' @ dq @ ''Open In Colab'' @ dq @ ''/></a>''"

definition create_badge_cell :: "string \<Rightarrow> string \<Rightarrow> string \<Rightarrow> json" where
  "create_badge_cell repo branch file_path =
     JObj [(''cell_type'', JStr ''markdown''),
           (''metadata'', JObj []),
           (''source'', JArr [JStr (badge_html repo branch file_path)])]"

section \<open>The notebook updater\<close>

text \<open>
  Steps 1 to 3 of \<^verbatim>\<open>update_notebook\<close>, on the parsed document. They run outside the
  two \<^verbatim>\<open>try\<close> blocks, so an exception here leaves the function. A document that is
  not a dictionary raises \<^verbatim>\<open>TypeError\<close> at \<^verbatim>\<open>"cells" in data\<close> or at the access
  \<^verbatim>\<open>data["cells"]\<close> that follows it.
\<close>

definition update_document :: "json \<Rightarrow> string \<Rightarrow> string \<Rightarrow> string \<Rightarrow> json result" where
  "update_document data file_path repo branch =
     (case data of
        JObj kvs \<Rightarrow>
          (case (case dict_get kvs ''cells'' of
                   Some cells \<Rightarrow> clean_notebook_cells cells
                 | None \<Rightarrow> Inr []) of
             Inl e \<Rightarrow> Inl e
           | Inr cleaned \<Rightarrow>
               (let badge_cell = create_badge_cell repo branch file_path
                in Inr (JObj (dict_set kvs ''cells'' (JArr (badge_cell # cleaned))))))
      | _ \<Rightarrow> Inl TypeError)"

subsection \<open>Files and standard output\<close>

text \<open>
  The environment of a run: for each path that exists, what reading it gives (its text,
  or the message of the \<^verbatim>\<open>OSError\<close> raised) and whether opening it for writing raises;
  and the lines printed so far. \<^verbatim>\<open>json.load\<close> and \<^verbatim>\<open>json.dump\<close> belong to Python's
  library and are parameters: \<open>loads\<close> gives the parsed document or the message of
  the exception raised while decoding and parsing, \<open>dumps\<close> the serialised text.
  A write that fails half-way is not modelled.
\<close>

datatype fnode = FNode (rd: "string + string") (wr_err: "string option")

record world =
  files :: "string \<Rightarrow> fnode option"
  stdout :: "string list"

definition print :: "string \<Rightarrow> world \<Rightarrow> world" where
  "print line w = w\<lparr>stdout := stdout w @ [line]\<rparr>"

definition enoent :: "string \<Rightarrow> string" where
  "enoent file_path = ''[Errno 2] No such file or directory: '' @ [CHR 0x27] @ file_path @ [CHR 0x27]"

definition load_json :: "(string \<Rightarrow> string + json) \<Rightarrow> world \<Rightarrow> string \<Rightarrow> string + json" where
  "load_json loads w file_path =
     (case files w file_path of
        None \<Rightarrow> Inl (enoent file_path)
      | Some n \<Rightarrow> (case rd n of Inl msg \<Rightarrow> Inl msg | Inr text \<Rightarrow> loads text))"

definition save_json :: "(json \<Rightarrow> string) \<Rightarrow> world \<Rightarrow> string \<Rightarrow> json \<Rightarrow> string + world" where
  "save_json dumps w file_path data =
     (let text = dumps data @ [CHR 0x0A]
      in case files w file_path of
           None \<Rightarrow> Inr (w\<lparr>files := (files w)(file_path \<mapsto> FNode (Inr text) None)\<rparr>)
         | Some n \<Rightarrow>
             (case wr_err n of
                Some msg \<Rightarrow> Inl msg
              | None \<Rightarrow> Inr (w\<lparr>files := (files w)(file_path \<mapsto> FNode (Inr text) None)\<rparr>)))"

text \<open>
  \<^verbatim>\<open>update_notebook\<close>: \<open>Inr w'\<close> when it returns, with the files and the output it
  leaves; \<open>Inl e\<close> when an exception leaves it.
\<close>

definition update_notebook ::
  "(string \<Rightarrow> string + json) \<Rightarrow> (json \<Rightarrow> string) \<Rightarrow> string \<Rightarrow> string \<Rightarrow> string \<Rightarrow> world
     \<Rightarrow> world result" where
  "update_notebook loads dumps file_path repo branch w0 =
     (let w = print (''Updating badge for '' @ file_path @ '' -> '' @ branch) w0
      in case load_json loads w file_path of
           Inl msg \<Rightarrow> Inr (print (''Error reading '' @ file_path @ '': '' @ msg) w)
         | Inr data \<Rightarrow>
             (case update_document data file_path repo branch of
                Inl e \<Rightarrow> Inl e
              | Inr data' \<Rightarrow>
                  (case save_json dumps w file_path data' of
                     Inl msg \<Rightarrow> Inr (print (''Error writing '' @ file_path @ '': '' @ msg) w)
                   | Inr w' \<Rightarrow> Inr w')))"

text \<open>The loop of \<^verbatim>\<open>main\<close> over \<^verbatim>\<open>args.files\<close>.\<close>

fun main_loop ::
  "(string \<Rightarrow> string + json) \<Rightarrow> (json \<Rightarrow> string) \<Rightarrow> string \<Rightarrow> string \<Rightarrow> string list \<Rightarrow> world
     \<Rightarrow> world result" where
  "main_loop loads dumps repo branch [] w = Inr w"
| "main_loop loads dumps repo branch (file_path # rest) w =
     (if files w file_path = None
      then main_loop loads dumps repo branch rest (print (''File not found: '' @ file_path) w)
      else (case update_notebook loads dumps file_path repo branch w of
              Inl e \<Rightarrow> Inl e
            | Inr w' \<Rightarrow> main_loop loads dumps repo branch rest w'))"

section \<open>Notions used to state the properties\<close>

text \<open>
  The cleaned sequence of a document: what step 1 of \<^verbatim>\<open>update_notebook\<close> leaves in
  \<^verbatim>\<open>data["cells"]\<close> before the badge cell is inserted.
\<close>

definition cleaned_cells :: "json \<Rightarrow> json list result" where
  "cleaned_cells data =
     (case data of
        JObj kvs \<Rightarrow>
          (case dict_get kvs ''cells'' of
             Some cells \<Rightarrow> clean_notebook_cells cells
           | None \<Rightarrow> Inr [])
      | _ \<Rightarrow> Inl TypeError)"

text \<open>The cells of a document whose \<^verbatim>\<open>"cells"\<close> field is a list.\<close>

definition document_cells :: "json \<Rightarrow> json list option" where
  "document_cells data =
     (case data of
        JObj kvs \<Rightarrow> (case dict_get kvs ''cells'' of Some (JArr cs) \<Rightarrow> Some cs | _ \<Rightarrow> None)
      | _ \<Rightarrow> None)"

text \<open>
  A markdown cell has a badge line when some line of its source, read as the cleaner
  reads it, is not rejected by the detector.
\<close>

definition has_badge_line :: "json \<Rightarrow> bool" where
  "has_badge_line cell =
     (case cell of
        JObj kvs \<Rightarrow>
          dict_get kvs ''cell_type'' = Some (JStr ''markdown'') \<and>
          (case py_iter (cell_source kvs) of
             Inr ls \<Rightarrow> \<exists>l\<in>set ls. is_badge_line l \<noteq> Inr False
           | Inl e \<Rightarrow> True)
      | _ \<Rightarrow> False)"

subsection \<open>Example inputs\<close>

text \<open>
  A notebook with a title cell that also carries a badge, a cell that is only a badge, and
  a code cell; and what the update for \<^verbatim>\<open>o/r\<close>, \<^verbatim>\<open>main\<close>, \<^verbatim>\<open>nb.ipynb\<close> makes of it.
\<close>

definition example_cells :: "json list" where
  "example_cells =
     [JObj [(''cell_type'', JStr ''markdown''),
            (''source'', JArr [JStr ''# Title'', JStr ''<img src=colab-badge.svg>''])],
      JObj [(''cell_type'', JStr ''markdown''),
            (''source'', JArr [JStr ''colab-badge.svg'']), (''id'', JInt 7)],
      JObj [(''cell_type'', JStr ''code''), (''source'', JStr ''x = 1'')]]"

definition example_cleaned :: "json list" where
  "example_cleaned =
     [JObj [(''cell_type'', JStr ''markdown''), (''source'', JArr [JStr ''# Title''])],
      JObj [(''cell_type'', JStr ''code''), (''source'', JStr ''x = 1'')]]"

definition example_notebook :: json where
  "example_notebook =
     JObj [(''metadata'', JObj [(''language'', JStr ''python'')]),
           (''cells'', JArr example_cells),
           (''nbformat'', JInt 4)]"

definition example_updated :: json where
  "example_updated =
     JObj [(''metadata'', JObj [(''language'', JStr ''python'')]),
           (''cells'', JArr (create_badge_cell ''o/r'' ''main'' ''nb.ipynb'' # example_cleaned)),
           (''nbformat'', JInt 4)]"

text \<open>A code cell whose text holds the badge substring.\<close>

definition example_code_cell :: json where
  "example_code_cell =
     JObj [(''cell_type'', JStr ''code''), (''source'', JArr [JStr ''url = colab-badge.svg'']),
           (''outputs'', JArr [])]"

text \<open>
  A run over a file that is not JSON and a file holding the empty document, with a parser
  and a serialiser that know just these texts.
\<close>

definition example_loads :: "string \<Rightarrow> string + json" where
  "example_loads text =
     (if text = ''{}'' then Inr (JObj [])
      else Inl ''Expecting value: line 1 column 1 (char 0)'')"

definition example_dumps :: "json \<Rightarrow> string" where
  "example_dumps data = (if data = JObj [] then ''{}'' else ''{...}'')"

definition example_world :: world where
  "example_world =
     \<lparr>files = [''bad.ipynb'' \<mapsto> FNode (Inr ''not json'') None,
               ''empty.ipynb'' \<mapsto> FNode (Inr ''{}'') None],
      stdout = []\<rparr>"

section \<open>Dictionaries, substrings and the line filter\<close>

lemma dict_get_dict_set:
  "dict_get (dict_set kvs k v) k' = (if k' = k then Some v else dict_get kvs k')"
  by (induction kvs) auto

lemma dict_set_dict_set: "dict_set (dict_set kvs k v) k v' = dict_set kvs k v'"
  by (induction kvs) auto

lemma dict_set_others:
  "filter (\<lambda>kv. fst kv \<noteq> k) (dict_set kvs k v) = filter (\<lambda>kv. fst kv \<noteq> k) kvs"
  by (induction kvs) auto

lemma dict_set_absent: "dict_get kvs k = None \<Longrightarrow> dict_set kvs k v = kvs @ [(k, v)]"
  by (induction kvs) (auto split: if_splits)

lemma dict_set_same: "dict_get kvs k = Some v \<Longrightarrow> dict_set kvs k v = kvs"
  by (induction kvs) (auto split: if_splits)

text \<open>\<open>str_contains\<close> is Python's substring test.\<close>

lemma str_contains_iff: "str_contains hay needle \<longleftrightarrow> (\<exists>ps ss. hay = ps @ needle @ ss)"
proof (induction hay)
  case Nil
  then show ?case by auto
next
  case (Cons c cs)
  show ?case
  proof
    assume "str_contains (c # cs) needle"
    then consider "prefix needle (c # cs)" | "str_contains cs needle" by auto
    then show "\<exists>ps ss. c # cs = ps @ needle @ ss"
    proof cases
      case 1
      then obtain ss where "c # cs = needle @ ss" by (auto simp: prefix_def)
      then have "c # cs = [] @ needle @ ss" by simp
      then show ?thesis by blast
    next
      case 2
      with Cons.IH obtain ps ss where "cs = ps @ needle @ ss" by blast
      then have "c # cs = (c # ps) @ needle @ ss" by simp
      then show ?thesis by blast
    qed
  next
    assume "\<exists>ps ss. c # cs = ps @ needle @ ss"
    then obtain ps ss where eq: "c # cs = ps @ needle @ ss" by blast
    show "str_contains (c # cs) needle"
    proof (cases ps)
      case Nil
      with eq have "prefix needle (c # cs)" by (simp add: prefix_def)
      then show ?thesis by simp
    next
      case (Cons p ps')
      with eq have "cs = ps' @ needle @ ss" by simp
      with Cons.IH have "str_contains cs needle" by blast
      then show ?thesis by simp
    qed
  qed
qed

text \<open>
  The comprehension keeps exactly the lines the detector rejects, in their order, and
  raises only when the detector raises on some line.
\<close>

lemma filter_lines_Inr:
  "filter_lines ls = Inr kept \<Longrightarrow> kept = filter (\<lambda>l. is_badge_line l = Inr False) ls"
  by (induction ls arbitrary: kept) (auto split: sum.splits if_splits)

lemma filter_lines_total:
  "(\<forall>l\<in>set ls. \<not> isl (is_badge_line l)) \<Longrightarrow>
   filter_lines ls = Inr (filter (\<lambda>l. is_badge_line l = Inr False) ls)"
  by (induction ls) (auto split: sum.splits)

lemma filter_lines_again: "filter_lines ls = Inr kept \<Longrightarrow> filter_lines kept = Inr kept"
proof -
  assume a: "filter_lines ls = Inr kept"
  have k: "kept = filter (\<lambda>l. is_badge_line l = Inr False) ls" by (rule filter_lines_Inr [OF a])
  have "filter_lines kept = Inr (filter (\<lambda>l. is_badge_line l = Inr False) kept)"
    by (rule filter_lines_total) (auto simp: k)
  then show ?thesis by (simp add: k)
qed

section \<open>The cleaner, cell by cell\<close>

text \<open>A cell the cleaner has kept is kept as it is by a second pass.\<close>

lemma clean_cell_again: "clean_cell c = Inr (Some c') \<Longrightarrow> clean_cell c' = Inr (Some c')"
proof (cases c)
  case (JObj kvs)
  assume a: "clean_cell c = Inr (Some c')"
  show ?thesis
  proof (cases "dict_get kvs ''cell_type'' = Some (JStr ''markdown'')")
    case False
    with a JObj show ?thesis by (auto simp: clean_cell_def)
  next
    case True
    from a JObj True obtain source new_source where
      s: "py_iter (cell_source kvs) = Inr source" and
      f: "filter_lines source = Inr new_source" and
      c': "c' = JObj (dict_set kvs ''source'' (JArr new_source))"
      by (auto simp: clean_cell_def Let_def split: sum.splits if_splits)
    have "cell_source (dict_set kvs ''source'' (JArr new_source)) = JArr new_source"
      by (simp add: cell_source_def dict_get_dict_set)
    with True filter_lines_again [OF f] show ?thesis
      by (simp add: c' clean_cell_def dict_get_dict_set dict_set_dict_set)
  qed
qed (auto simp: clean_cell_def)

text \<open>
  The loop appends to its accumulator and never reads it, so it can be run on pieces of
  the list.
\<close>

lemma clean_loop_acc:
  "clean_loop cs acc = (case clean_loop cs [] of Inl e \<Rightarrow> Inl e | Inr r \<Rightarrow> Inr (acc @ r))"
proof (induction cs arbitrary: acc)
  case Nil
  then show ?case by simp
next
  case (Cons c cs)
  show ?case
  proof (cases "clean_cell c")
    case (Inl e)
    then show ?thesis by simp
  next
    case (Inr r)
    show ?thesis
    proof (cases r)
      case None
      with Inr Cons.IH [of acc] show ?thesis by simp
    next
      case (Some c')
      with Inr Cons.IH [of "acc @ [c']"] Cons.IH [of "[c']"] show ?thesis
        by (simp split: sum.splits)
    qed
  qed
qed

lemma clean_loop_append:
  "clean_loop (xs @ ys) acc =
     (case clean_loop xs acc of Inl e \<Rightarrow> Inl e | Inr r \<Rightarrow> clean_loop ys r)"
  by (induction xs arbitrary: acc) (auto split: sum.splits option.splits)

lemma clean_loop_fixed:
  "clean_loop cs acc = Inr r \<Longrightarrow> \<forall>c\<in>set acc. clean_cell c = Inr (Some c) \<Longrightarrow>
   \<forall>c\<in>set r. clean_cell c = Inr (Some c)"
proof (induction cs arbitrary: acc)
  case Nil
  then show ?case by simp
next
  case (Cons c cs)
  show ?case
  proof (cases "clean_cell c")
    case (Inl e)
    with Cons.prems show ?thesis by simp
  next
    case (Inr o1)
    show ?thesis
    proof (cases o1)
      case None
      with Inr Cons show ?thesis by simp
    next
      case (Some c')
      with Inr have "clean_cell c' = Inr (Some c')" by (simp add: clean_cell_again)
      with Cons.prems(2) have "\<forall>x\<in>set (acc @ [c']). clean_cell x = Inr (Some x)" by simp
      moreover from Inr Some Cons.prems(1) have "clean_loop cs (acc @ [c']) = Inr r" by simp
      ultimately show ?thesis by (rule Cons.IH [rotated])
    qed
  qed
qed

lemma clean_loop_keep:
  "\<forall>c\<in>set cs. clean_cell c = Inr (Some c) \<Longrightarrow> clean_loop cs acc = Inr (acc @ cs)"
  by (induction cs arbitrary: acc) auto

lemma clean_loop_hd:
  "clean_cell c = Inr (Some c') \<Longrightarrow> clean_loop (c # cs) [] = Inr r \<Longrightarrow> \<exists>r'. r = c' # r'"
proof -
  assume a: "clean_cell c = Inr (Some c')" and b: "clean_loop (c # cs) [] = Inr r"
  from a b have "clean_loop cs [c'] = Inr r" by simp
  then show ?thesis by (subst (asm) clean_loop_acc) (auto split: sum.splits)
qed

text \<open>
  What the cleaner does with one cell decides what stands at that cell's place in the
  output, whatever the cells before and after it are (as long as none of them raises).
\<close>

lemma clean_cells_at:
  assumes "clean_loop pre [] = Inr a" and "clean_loop post [] = Inr b" and "clean_cell c = Inr r"
  shows "clean_notebook_cells (JArr (pre @ [c] @ post))
         = Inr (a @ (case r of None \<Rightarrow> [] | Some c' \<Rightarrow> [c']) @ b)"
proof -
  have "clean_loop (pre @ c # post) [] = clean_loop (c # post) a"
    using assms(1) by (simp add: clean_loop_append)
  also have "\<dots> = clean_loop post (a @ (case r of None \<Rightarrow> [] | Some c' \<Rightarrow> [c']))"
    using assms(3) by (cases r) simp_all
  also have "\<dots> = Inr ((a @ (case r of None \<Rightarrow> [] | Some c' \<Rightarrow> [c'])) @ b)"
    using assms(2) by (subst clean_loop_acc) simp
  finally show ?thesis by (simp add: clean_notebook_cells_def)
qed

text \<open>The badge cell the builder makes is one the cleaner drops.\<close>

lemma badge_html_is_badge: "str_contains (badge_html repo branch file_path) ''colab-badge.svg''"
proof -
  have "badge_html repo branch file_path =
      (''<a href='' @ dq @ colab_url repo branch file_path @ dq
       @ '' target='' @ dq @ ''_parent'' @ dq
       @ ''><img src='' @ dq @ ''https://colab.research.google.com/assets/'')
      @ ''colab-badge.svg'' @ (dq @ '' alt='' @ dq @ ''Open In Colab'' @ dq @ ''/></a>'')"
    by (simp add: badge_html_def image_url_def)
  then show ?thesis unfolding str_contains_iff by blast
qed

lemma clean_badge_cell: "clean_cell (create_badge_cell repo branch file_path) = Inr None"
  by (simp add: create_badge_cell_def clean_cell_def cell_source_def badge_html_is_badge)

lemma update_document_Inr:
  "update_document d file_path repo branch = Inr d' \<Longrightarrow>
   \<exists>kvs cleaned. d = JObj kvs \<and> cleaned_cells d = Inr cleaned \<and>
     d' = JObj (dict_set kvs ''cells'' (JArr (create_badge_cell repo branch file_path # cleaned)))"
  by (cases d) (auto simp: update_document_def cleaned_cells_def split: sum.splits)

lemma cleaned_cells_fixed:
  "cleaned_cells d = Inr cleaned \<Longrightarrow> \<forall>c\<in>set cleaned. clean_cell c = Inr (Some c)"
proof -
  assume a: "cleaned_cells d = Inr cleaned"
  show ?thesis
  proof (cases "cleaned = []")
    case True
    then show ?thesis by simp
  next
    case False
    with a obtain cs where "clean_loop cs [] = Inr cleaned"
      by (auto simp: cleaned_cells_def clean_notebook_cells_def split: json.splits option.splits sum.splits)
    then show ?thesis by (rule clean_loop_fixed) simp
  qed
qed

lemma clean_cell_no_badge: "clean_cell c = Inr (Some c) \<Longrightarrow> \<not> has_badge_line c"
proof (cases c)
  case (JObj kvs)
  assume a: "clean_cell c = Inr (Some c)"
  show ?thesis
  proof (cases "dict_get kvs ''cell_type'' = Some (JStr ''markdown'')")
    case False
    with JObj show ?thesis by (simp add: has_badge_line_def)
  next
    case True
    from a JObj True obtain source new_source where
      s: "py_iter (cell_source kvs) = Inr source" and
      f: "filter_lines source = Inr new_source" and
      c': "kvs = dict_set kvs ''source'' (JArr new_source)"
      by (auto simp: clean_cell_def Let_def split: sum.splits if_splits)
    have "dict_get (dict_set kvs ''source'' (JArr new_source)) ''source'' = Some (JArr new_source)"
      by (simp add: dict_get_dict_set)
    with c' have "dict_get kvs ''source'' = Some (JArr new_source)" by simp
    then have cs: "cell_source kvs = JArr new_source" by (simp add: cell_source_def)
    have "new_source = filter (\<lambda>l. is_badge_line l = Inr False) source"
      by (rule filter_lines_Inr [OF f])
    then have "\<forall>l\<in>set new_source. is_badge_line l = Inr False" by auto
    with JObj cs show ?thesis by (simp add: has_badge_line_def)
  qed
qed (auto simp: has_badge_line_def)

text \<open>A hexadecimal digit is never escaped itself.\<close>

lemma hex_digit_safe: "always_safe (hex_digit n)"
proof -
  have "\<forall>c\<in>set ''0123456789ABCDEF''. always_safe c" by (simp add: always_safe_def)
  moreover have "hex_digit n \<in> set ''0123456789ABCDEF''"
    unfolding hex_digit_def by (rule nth_mem) simp
  ultimately show ?thesis by blast
qed

lemma quote_byte_chars: "c' \<in> set (quote_byte c) \<Longrightarrow> always_safe c' \<or> c' = CHR ''%''"
  by (auto simp: quote_byte_def hex_digit_safe split: if_splits)

lemma quote_chars: "c \<in> set (quote s) \<Longrightarrow> always_safe c \<or> c = CHR ''%''"
  by (auto simp: quote_def dest: quote_byte_chars)

subsection \<open>The examples, evaluated\<close>

lemma example_update:
  "update_document example_notebook ''nb.ipynb'' ''o/r'' ''main'' = Inr example_updated"
  by (simp add: example_notebook_def example_updated_def example_cells_def example_cleaned_def
      update_document_def clean_notebook_cells_def clean_cell_def cell_source_def)

lemma example_cleaned_cells: "cleaned_cells example_notebook = Inr example_cleaned"
  by (simp add: example_notebook_def example_cells_def example_cleaned_def cleaned_cells_def
      clean_notebook_cells_def clean_cell_def cell_source_def)

lemma example_code_cell_clean: "clean_loop [example_code_cell] [] = Inr [example_code_cell]"
  by (simp add: example_code_cell_def clean_cell_def)

text \<open>
  When the file is read, the update succeeds and the file can be written, the text written
  is the serialised result of \<open>update_document\<close> on the document read, and a newline.
\<close>

lemma update_notebook_saves:
  assumes "load_json loads w file_path = Inr d"
    and "update_document d file_path repo branch = Inr d'"
    and "files w file_path = Some n" and "wr_err n = None"
  shows "update_notebook loads dumps file_path repo branch w
         = Inr (w\<lparr>files := (files w)(file_path \<mapsto> FNode (Inr (dumps d' @ [CHR 0x0A])) None),
                   stdout := stdout w @ [''Updating badge for '' @ file_path @ '' -> '' @ branch]\<rparr>)"
  using assms by (simp add: update_notebook_def load_json_def save_json_def print_def Let_def)

text \<open>
  A whole run: the first file is not JSON, the second does not exist, the third holds
  \<^verbatim>\<open>{}\<close>. Only the third is rewritten.
\<close>

lemma example_run:
  "main_loop example_loads example_dumps ''o/r'' ''main'' [''bad.ipynb'', ''gone.ipynb'', ''empty.ipynb''] example_world
   = Inr \<lparr>files = [''bad.ipynb'' \<mapsto> FNode (Inr ''not json'') None,
                   ''empty.ipynb'' \<mapsto> FNode (Inr (''{...}'' @ [CHR 0x0A])) None],
          stdout = [''Updating badge for bad.ipynb -> main'',
                    ''Error reading bad.ipynb: Expecting value: line 1 column 1 (char 0)'',
                    ''File not found: gone.ipynb'',
                    ''Updating badge for empty.ipynb -> main'']\<rparr>"
  by (simp add: update_notebook_def load_json_def save_json_def print_def example_loads_def
      example_dumps_def example_world_def update_document_def Let_def create_badge_cell_def)

section \<open>Idempotency of the update\<close>

text \<open>
  C1. Whenever the in-memory update (clean the cells, build the badge cell, insert it at
  index 0) returns a document, applying it again with the same repository, branch and
  file path returns that same document: the second run removes the badge cell of the
  first, leaves every cleaned cell as it is, and inserts an equal badge cell. So the
  cells sequence after two runs is the one after one run, with no second badge.
\<close>

theorem update_idempotent:
  assumes "update_document d file_path repo branch = Inr d'"
  shows "update_document d' file_path repo branch = Inr d'"
proof -
  from update_document_Inr [OF assms] obtain kvs cleaned where
    d: "d = JObj kvs" and cl: "cleaned_cells d = Inr cleaned" and
    d': "d' = JObj (dict_set kvs ''cells'' (JArr (create_badge_cell repo branch file_path # cleaned)))"
    by blast
  have "clean_loop cleaned [] = Inr ([] @ cleaned)"
    by (rule clean_loop_keep) (rule cleaned_cells_fixed [OF cl])
  then have "clean_notebook_cells (JArr (create_badge_cell repo branch file_path # cleaned)) = Inr cleaned"
    by (simp add: clean_notebook_cells_def clean_badge_cell)
  then show ?thesis
    by (simp add: d' update_document_def dict_get_dict_set dict_set_dict_set)
qed

theorem update_idempotent_witness:
  "update_document example_notebook ''nb.ipynb'' ''o/r'' ''main'' = Inr example_updated
   \<and> update_document example_updated ''nb.ipynb'' ''o/r'' ''main'' = Inr example_updated"
  using example_update update_idempotent [OF example_update] by (rule conjI)

section \<open>The document after the update\<close>

text \<open>
  C2. Whenever the update returns a document, its cells are a list one longer than the
  cleaned sequence of the input; the cell at index 0 is the badge cell built for the given
  repository, branch and file path; the cleaned cell of index \<open>i\<close> stands at index
  \<open>i + 1\<close>, so the first cell of the input, when the cleaner keeps it, is at index 1; and
  no cell after index 0 is a markdown cell with a line the detector accepts.
\<close>

theorem update_post_state:
  assumes "update_document d file_path repo branch = Inr d'"
  shows "\<exists>cleaned cells'.
           cleaned_cells d = Inr cleaned \<and> document_cells d' = Some cells' \<and>
           length cells' = Suc (length cleaned) \<and>
           cells' ! 0 = create_badge_cell repo branch file_path \<and>
           (\<forall>i<length cleaned. cells' ! Suc i = cleaned ! i) \<and>
           (\<forall>c0 rest c0'. document_cells d = Some (c0 # rest) \<and> clean_cell c0 = Inr (Some c0')
                \<longrightarrow> cells' ! 1 = c0') \<and>
           (\<forall>i. 0 < i \<and> i < length cells' \<longrightarrow> \<not> has_badge_line (cells' ! i))"
proof -
  from update_document_Inr [OF assms] obtain kvs cleaned where
    d: "d = JObj kvs" and cl: "cleaned_cells d = Inr cleaned" and
    d': "d' = JObj (dict_set kvs ''cells'' (JArr (create_badge_cell repo branch file_path # cleaned)))"
    by blast
  let ?cells = "create_badge_cell repo branch file_path # cleaned"
  have dc: "document_cells d' = Some ?cells"
    by (simp add: d' document_cells_def dict_get_dict_set)
  have nb: "\<forall>c\<in>set cleaned. \<not> has_badge_line c"
    using cleaned_cells_fixed [OF cl] clean_cell_no_badge by blast
  have tail: "\<forall>i. 0 < i \<and> i < length ?cells \<longrightarrow> \<not> has_badge_line (?cells ! i)"
  proof (intro allI impI)
    fix i assume "0 < i \<and> i < length ?cells"
    then obtain j where "i = Suc j" "j < length cleaned" by (cases i) auto
    with nb show "\<not> has_badge_line (?cells ! i)" by simp
  qed
  have first: "\<forall>c0 rest c0'. document_cells d = Some (c0 # rest) \<and> clean_cell c0 = Inr (Some c0')
                \<longrightarrow> ?cells ! 1 = c0'"
  proof (intro allI impI)
    fix c0 rest c0'
    assume h: "document_cells d = Some (c0 # rest) \<and> clean_cell c0 = Inr (Some c0')"
    with d have "dict_get kvs ''cells'' = Some (JArr (c0 # rest))"
      by (auto simp: document_cells_def split: option.splits json.splits)
    with cl d have "clean_loop (c0 # rest) [] = Inr cleaned"
      by (simp add: cleaned_cells_def clean_notebook_cells_def)
    with h obtain r' where "cleaned = c0' # r'" using clean_loop_hd by blast
    then show "?cells ! 1 = c0'" by simp
  qed
  from cl dc tail first show ?thesis by auto
qed

theorem update_post_state_witness:
  "update_document example_notebook ''nb.ipynb'' ''o/r'' ''main'' = Inr example_updated
   \<and> cleaned_cells example_notebook = Inr example_cleaned
   \<and> document_cells example_updated
       = Some (create_badge_cell ''o/r'' ''main'' ''nb.ipynb'' # example_cleaned)
   \<and> \<not> has_badge_line (example_cleaned ! 0) \<and> \<not> has_badge_line (example_cleaned ! 1)
   \<and> clean_cell (example_cells ! 0) = Inr (Some (example_cleaned ! 0))"
proof -
  from update_post_state [OF example_update] obtain cleaned cells' where
    c: "cleaned_cells example_notebook = Inr cleaned" and
    d: "document_cells example_updated = Some cells'" and
    len: "length cells' = Suc (length cleaned)" and
    shift: "\<forall>i<length cleaned. cells' ! Suc i = cleaned ! i" and
    nb: "\<forall>i. 0 < i \<and> i < length cells' \<longrightarrow> \<not> has_badge_line (cells' ! i)"
    by blast
  from c have cleaned: "cleaned = example_cleaned" by (simp add: example_cleaned_cells)
  have l: "length example_cleaned = 2" by (simp add: example_cleaned_def)
  from len cleaned l have len': "length cells' = 3" by simp
  from shift [rule_format, of 0] cleaned l have s0: "cells' ! 1 = example_cleaned ! 0" by simp
  from shift [rule_format, of 1] cleaned l have s1: "cells' ! 2 = example_cleaned ! 1"
    by (simp add: numeral_2_eq_2)
  from nb [rule_format, of 1] len' have n0: "\<not> has_badge_line (cells' ! 1)" by simp
  from nb [rule_format, of 2] len' have n1: "\<not> has_badge_line (cells' ! 2)" by simp
  from n0 n1 s0 s1
  have n: "\<not> has_badge_line (example_cleaned ! 0)" "\<not> has_badge_line (example_cleaned ! 1)"
    by simp_all
  have dc: "document_cells example_updated
            = Some (create_badge_cell ''o/r'' ''main'' ''nb.ipynb'' # example_cleaned)"
    by (simp add: example_updated_def document_cells_def)
  have k: "clean_cell (example_cells ! 0) = Inr (Some (example_cleaned ! 0))"
    by (simp add: example_cells_def example_cleaned_def clean_cell_def cell_source_def)
  from example_update example_cleaned_cells dc n k show ?thesis by (intro conjI)
qed

section \<open>What the cleaner does with a markdown cell\<close>

text \<open>
  C3. Take a markdown cell, with \<open>ls\<close> the lines of its source as the cleaner reads them
  (a string is split into lines first), anywhere in a list of cells that are cleaned
  without an exception. When \<open>ls\<close> is not empty and the detector accepts every line,
  the output holds nothing at the place of the cell. When the detector raises on no line,
  accepts at least one line and rejects at least one, the output holds the cell at its
  place, its source replaced by the rejected lines in their order.
\<close>

theorem clean_badge_only_or_mixed:
  assumes "dict_get kvs ''cell_type'' = Some (JStr ''markdown'')"
    and "py_iter (cell_source kvs) = Inr ls"
    and "clean_loop pre [] = Inr a" and "clean_loop post [] = Inr b"
  shows "(ls \<noteq> [] \<and> (\<forall>l\<in>set ls. is_badge_line l = Inr True) \<longrightarrow>
            clean_notebook_cells (JArr (pre @ [JObj kvs] @ post)) = Inr (a @ b))
       \<and> ((\<forall>l\<in>set ls. \<not> isl (is_badge_line l)) \<and> (\<exists>l\<in>set ls. is_badge_line l = Inr True)
            \<and> (\<exists>l\<in>set ls. is_badge_line l = Inr False) \<longrightarrow>
            clean_notebook_cells (JArr (pre @ [JObj kvs] @ post))
            = Inr (a @ [JObj (dict_set kvs ''source''
                               (JArr (filter (\<lambda>l. is_badge_line l = Inr False) ls)))] @ b))"
proof (intro conjI impI)
  assume h: "ls \<noteq> [] \<and> (\<forall>l\<in>set ls. is_badge_line l = Inr True)"
  then have "filter_lines ls = Inr (filter (\<lambda>l. is_badge_line l = Inr False) ls)"
    by (intro filter_lines_total) auto
  moreover from h have "filter (\<lambda>l. is_badge_line l = Inr False) ls = []"
    by (auto simp: filter_empty_conv)
  ultimately have "clean_cell (JObj kvs) = Inr None"
    using assms(1,2) h by (simp add: clean_cell_def)
  from clean_cells_at [OF assms(3,4) this]
  show "clean_notebook_cells (JArr (pre @ [JObj kvs] @ post)) = Inr (a @ b)" by simp
next
  assume h: "(\<forall>l\<in>set ls. \<not> isl (is_badge_line l)) \<and> (\<exists>l\<in>set ls. is_badge_line l = Inr True)
            \<and> (\<exists>l\<in>set ls. is_badge_line l = Inr False)"
  then have f: "filter_lines ls = Inr (filter (\<lambda>l. is_badge_line l = Inr False) ls)"
    by (intro filter_lines_total) auto
  from h have "filter (\<lambda>l. is_badge_line l = Inr False) ls \<noteq> []"
    by (auto simp: filter_empty_conv)
  with f have "clean_cell (JObj kvs)
      = Inr (Some (JObj (dict_set kvs ''source'' (JArr (filter (\<lambda>l. is_badge_line l = Inr False) ls)))))"
    using assms(1,2) by (simp add: clean_cell_def)
  from clean_cells_at [OF assms(3,4) this]
  show "clean_notebook_cells (JArr (pre @ [JObj kvs] @ post))
            = Inr (a @ [JObj (dict_set kvs ''source''
                               (JArr (filter (\<lambda>l. is_badge_line l = Inr False) ls)))] @ b)"
    by simp
qed

theorem clean_badge_only_or_mixed_witness:
  "clean_notebook_cells
     (JArr ([example_code_cell]
            @ [JObj [(''cell_type'', JStr ''markdown''),
                     (''source'', JStr (''<img src=colab-badge.svg>'' @ [CHR 0x0A] @ ''<a>colab-badge.svg</a>''))]]
            @ [example_code_cell]))
     = Inr ([example_code_cell] @ [example_code_cell])
   \<and> clean_notebook_cells
     (JArr ([] @ [JObj [(''cell_type'', JStr ''markdown''),
                       (''source'', JArr [JStr ''# Title'', JStr ''<img src=colab-badge.svg>'', JStr ''text'']),
                       (''metadata'', JObj [])]]
            @ [example_code_cell]))
     = Inr ([] @ [JObj [(''cell_type'', JStr ''markdown''),
                       (''source'', JArr [JStr ''# Title'', JStr ''text'']),
                       (''metadata'', JObj [])]]
            @ [example_code_cell])"
proof -
  let ?only = "[(''cell_type'', JStr ''markdown''),
               (''source'', JStr (''<img src=colab-badge.svg>'' @ [CHR 0x0A] @ ''<a>colab-badge.svg</a>''))]"
  let ?mixed = "[(''cell_type'', JStr ''markdown''),
                (''source'', JArr [JStr ''# Title'', JStr ''<img src=colab-badge.svg>'', JStr ''text'']),
                (''metadata'', JObj [])]"
  have t1: "dict_get ?only ''cell_type'' = Some (JStr ''markdown'')" by simp
  have s1: "py_iter (cell_source ?only)
            = Inr [JStr (''<img src=colab-badge.svg>'' @ [CHR 0x0A]), JStr ''<a>colab-badge.svg</a>'']"
    by (simp add: cell_source_def splitlines_def splitlines_from.simps eol_len_def)
  have t2: "dict_get ?mixed ''cell_type'' = Some (JStr ''markdown'')" by simp
  have s2: "py_iter (cell_source ?mixed)
            = Inr [JStr ''# Title'', JStr ''<img src=colab-badge.svg>'', JStr ''text'']"
    by (simp add: cell_source_def)
  have e: "clean_loop [] [] = Inr []" by simp
  have a1: "[JStr (''<img src=colab-badge.svg>'' @ [CHR 0x0A]), JStr ''<a>colab-badge.svg</a>''] \<noteq> []
            \<and> (\<forall>l\<in>set [JStr (''<img src=colab-badge.svg>'' @ [CHR 0x0A]), JStr ''<a>colab-badge.svg</a>''].
                   is_badge_line l = Inr True)"
    by simp
  have a2: "(\<forall>l\<in>set [JStr ''# Title'', JStr ''<img src=colab-badge.svg>'', JStr ''text''].
               \<not> isl (is_badge_line l))
            \<and> (\<exists>l\<in>set [JStr ''# Title'', JStr ''<img src=colab-badge.svg>'', JStr ''text''].
                   is_badge_line l = Inr True)
            \<and> (\<exists>l\<in>set [JStr ''# Title'', JStr ''<img src=colab-badge.svg>'', JStr ''text''].
                   is_badge_line l = Inr False)"
    by simp
  from clean_badge_only_or_mixed [OF t1 s1 example_code_cell_clean example_code_cell_clean] a1
  have 1: "clean_notebook_cells (JArr ([example_code_cell] @ [JObj ?only] @ [example_code_cell]))
           = Inr ([example_code_cell] @ [example_code_cell])"
    by blast
  from clean_badge_only_or_mixed [OF t2 s2 e example_code_cell_clean] a2
  have "clean_notebook_cells (JArr ([] @ [JObj ?mixed] @ [example_code_cell]))
           = Inr ([] @ [JObj (dict_set ?mixed ''source''
                  (JArr (filter (\<lambda>l. is_badge_line l = Inr False)
                     [JStr ''# Title'', JStr ''<img src=colab-badge.svg>'', JStr ''text''])))]
                  @ [example_code_cell])"
    by blast
  then have 2: "clean_notebook_cells (JArr ([] @ [JObj ?mixed] @ [example_code_cell]))
           = Inr ([] @ [JObj [(''cell_type'', JStr ''markdown''),
                       (''source'', JArr [JStr ''# Title'', JStr ''text'']),
                       (''metadata'', JObj [])]] @ [example_code_cell])"
    by simp
  from 1 2 show ?thesis by (rule conjI)
qed

section \<open>The badge cell\<close>

text \<open>
  C4. The builder returns a dictionary with exactly the fields \<^verbatim>\<open>cell_type\<close> (the string
  \<^verbatim>\<open>markdown\<close>), \<^verbatim>\<open>metadata\<close> (an empty dictionary) and \<^verbatim>\<open>source\<close> (a list of one
  string). The string is the anchor whose \<^verbatim>\<open>href\<close> is
  \<^verbatim>\<open>https://colab.research.google.com/github/\<close>, the repository as given, \<^verbatim>\<open>/blob/\<close>,
  the encoded branch, a slash and the file path as given; it ends in \<^verbatim>\<open>></a>\<close>, so in no
  newline. The encoded branch is the branch with every byte that is not a letter, a
  digit or one of \<^verbatim>\<open>_.-~\<close> replaced by a percent sign and the two upper-case
  hexadecimal digits of the byte: it holds only such safe characters and percent signs,
  so neither a slash nor a space; a slash becomes \<^verbatim>\<open>%2F\<close> and a space \<^verbatim>\<open>%20\<close>.
\<close>

theorem create_badge_cell_contract:
  "create_badge_cell repo branch file_path
     = JObj [(''cell_type'', JStr ''markdown''), (''metadata'', JObj []),
             (''source'', JArr [JStr (badge_html repo branch file_path)])]
   \<and> badge_html repo branch file_path
     = ''<a href='' @ dq @ ''https://colab.research.google.com/github/'' @ repo @ ''/blob/''
         @ quote branch @ ''/'' @ file_path @ dq @ '' target='' @ dq @ ''_parent'' @ dq
         @ ''><img src='' @ dq @ ''https://colab.research.google.com/assets/colab-badge.svg'' @ dq
         @ '' alt='' @ dq @ ''Open In Colab'' @ dq @ ''/></a>''
   \<and> last (badge_html repo branch file_path) = CHR ''>''
   \<and> quote branch = concat (map quote_byte branch)
   \<and> (\<forall>c. always_safe c \<longrightarrow> quote_byte c = [c])
   \<and> (\<forall>c. \<not> always_safe c \<longrightarrow>
          (\<exists>h l. quote_byte c = [CHR ''%'', hex_digit h, hex_digit l] \<and> h < 16 \<and> l < 16
                 \<and> of_char c = 16 * h + l))
   \<and> (\<forall>c\<in>set (quote branch). always_safe c \<or> c = CHR ''%'')
   \<and> CHR ''/'' \<notin> set (quote branch) \<and> CHR '' '' \<notin> set (quote branch)
   \<and> quote ''/'' = ''%2F'' \<and> quote '' '' = ''%20''"
proof -
  have hex: "\<forall>c. \<not> always_safe c \<longrightarrow>
          (\<exists>h l. quote_byte c = [CHR ''%'', hex_digit h, hex_digit l] \<and> h < 16 \<and> l < 16
                 \<and> of_char c = 16 * h + l)"
  proof (intro allI impI)
    fix c :: char
    assume u: "\<not> always_safe c"
    have lt: "(of_char c :: nat) < 256" by simp
    let ?h = "(of_char c :: nat) div 16" and ?l = "(of_char c :: nat) mod 16"
    from u have "quote_byte c = [CHR ''%'', hex_digit ?h, hex_digit ?l]"
      by (simp add: quote_byte_def)
    moreover from lt have "?h < 16" by arith
    moreover have "?l < 16" by simp
    moreover have "of_char c = 16 * ?h + ?l" by simp
    ultimately show "\<exists>h l. quote_byte c = [CHR ''%'', hex_digit h, hex_digit l] \<and> h < 16 \<and> l < 16
                 \<and> of_char c = 16 * h + l" by blast
  qed
  have chars: "\<forall>c\<in>set (quote branch). always_safe c \<or> c = CHR ''%''"
    using quote_chars by blast
  have slash: "CHR ''/'' \<notin> set (quote branch)"
  proof
    assume "CHR ''/'' \<in> set (quote branch)"
    with chars have "always_safe (CHR ''/'') \<or> CHR ''/'' = CHR ''%''" by blast
    then show False by (simp add: always_safe_def)
  qed
  have space: "CHR '' '' \<notin> set (quote branch)"
  proof
    assume "CHR '' '' \<in> set (quote branch)"
    with chars have "always_safe (CHR '' '') \<or> CHR '' '' = CHR ''%''" by blast
    then show False by (simp add: always_safe_def)
  qed
  have ex: "quote ''/'' = ''%2F'' \<and> quote '' '' = ''%20''"
    by (simp add: quote_def quote_byte_def always_safe_def hex_digit_def)
  have html: "badge_html repo branch file_path
     = ''<a href='' @ dq @ ''https://colab.research.google.com/github/'' @ repo @ ''/blob/''
         @ quote branch @ ''/'' @ file_path @ dq @ '' target='' @ dq @ ''_parent'' @ dq
         @ ''><img src='' @ dq @ ''https://colab.research.google.com/assets/colab-badge.svg'' @ dq
         @ '' alt='' @ dq @ ''Open In Colab'' @ dq @ ''/></a>''"
    by (simp add: badge_html_def colab_url_def image_url_def)
  have lst: "last (badge_html repo branch file_path) = CHR ''>''"
    by (simp add: badge_html_def)
  have safe: "\<forall>c. always_safe c \<longrightarrow> quote_byte c = [c]" by (simp add: quote_byte_def)
  from hex chars slash space ex html lst safe show ?thesis
    by (simp add: create_badge_cell_def quote_def)
qed

theorem create_badge_cell_contract_witness:
  "create_badge_cell ''owner/repo'' ''feature/x y'' ''dir/nb.ipynb''
     = JObj [(''cell_type'', JStr ''markdown''), (''metadata'', JObj []),
             (''source'', JArr [JStr
                (''<a href='' @ dq
                  @ ''https://colab.research.google.com/github/owner/repo/blob/feature%2Fx%20y/dir/nb.ipynb''
                  @ dq @ '' target='' @ dq @ ''_parent'' @ dq
                  @ ''><img src='' @ dq @ ''https://colab.research.google.com/assets/colab-badge.svg'' @ dq
                  @ '' alt='' @ dq @ ''Open In Colab'' @ dq @ ''/></a>'')])]
   \<and> CHR ''/'' \<notin> set (quote ''feature/x y'') \<and> CHR '' '' \<notin> set (quote ''feature/x y'')
   \<and> always_safe (CHR ''x'') \<and> quote_byte (CHR ''x'') = ''x''
   \<and> \<not> always_safe (CHR ''/'') \<and> quote_byte (CHR ''/'') = ''%2F''"
proof -
  note c = create_badge_cell_contract [of "''owner/repo''" "''feature/x y''" "''dir/nb.ipynb''"]
  have q: "quote ''feature/x y'' = ''feature%2Fx%20y''"
    by (simp add: quote_def quote_byte_def always_safe_def hex_digit_def)
  have s: "always_safe (CHR ''x'')" and u: "\<not> always_safe (CHR ''/'')"
    by (simp_all add: always_safe_def)
  from c have cell: "create_badge_cell ''owner/repo'' ''feature/x y'' ''dir/nb.ipynb''
     = JObj [(''cell_type'', JStr ''markdown''), (''metadata'', JObj []),
             (''source'', JArr [JStr (badge_html ''owner/repo'' ''feature/x y'' ''dir/nb.ipynb'')])]"
    by (rule conjunct1)
  from c have html: "badge_html ''owner/repo'' ''feature/x y'' ''dir/nb.ipynb''
     = ''<a href='' @ dq @ ''https://colab.research.google.com/github/'' @ ''owner/repo'' @ ''/blob/''
         @ quote ''feature/x y'' @ ''/'' @ ''dir/nb.ipynb'' @ dq @ '' target='' @ dq @ ''_parent'' @ dq
         @ ''><img src='' @ dq @ ''https://colab.research.google.com/assets/colab-badge.svg'' @ dq
         @ '' alt='' @ dq @ ''Open In Colab'' @ dq @ ''/></a>''"
    by (elim conjE)
  from c have safe: "\<forall>c. always_safe c \<longrightarrow> quote_byte c = [c]" by (elim conjE)
  from c have unsafe: "\<forall>c. \<not> always_safe c \<longrightarrow>
          (\<exists>h l. quote_byte c = [CHR ''%'', hex_digit h, hex_digit l] \<and> h < 16 \<and> l < 16
                 \<and> of_char c = 16 * h + l)"
    by (elim conjE)
  from c have no1: "CHR ''/'' \<notin> set (quote ''feature/x y'')" by (elim conjE)
  from c have no2: "CHR '' '' \<notin> set (quote ''feature/x y'')" by (elim conjE)
  have 1: "create_badge_cell ''owner/repo'' ''feature/x y'' ''dir/nb.ipynb''
     = JObj [(''cell_type'', JStr ''markdown''), (''metadata'', JObj []),
             (''source'', JArr [JStr
                (''<a href='' @ dq
                  @ ''https://colab.research.google.com/github/owner/repo/blob/feature%2Fx%20y/dir/nb.ipynb''
                  @ dq @ '' target='' @ dq @ ''_parent'' @ dq
                  @ ''><img src='' @ dq @ ''https://colab.research.google.com/assets/colab-badge.svg'' @ dq
                  @ '' alt='' @ dq @ ''Open In Colab'' @ dq @ ''/></a>'')])]"
    by (simp add: cell html q)
  from safe s have 2: "quote_byte (CHR ''x'') = ''x''" by blast
  from unsafe u obtain h l where
    hl: "quote_byte (CHR ''/'') = [CHR ''%'', hex_digit h, hex_digit l]" "h < 16" "l < 16"
        "of_char (CHR ''/'') = 16 * h + l"
    by blast
  from hl(2,3,4) have "h = 2 \<and> l = 15" by (simp, arith)
  with hl(1) have 3: "quote_byte (CHR ''/'') = ''%2F''" by (simp add: hex_digit_def)
  from 1 2 3 no1 no2 s u show ?thesis by (intro conjI)
qed

section \<open>A markdown cell with nothing in its source\<close>

text \<open>
  C5, as the code has it. A markdown cell whose \<^verbatim>\<open>source\<close> is an empty list, an empty
  string or absent is kept at its place, never dropped, with its \<^verbatim>\<open>source\<close> field set
  to the empty list: the field is added at the end when it was absent, and an empty
  string is replaced by the empty list. Every other field keeps its value, and the cell
  is unchanged when its \<^verbatim>\<open>source\<close> was the empty list already.
\<close>

theorem clean_empty_source:
  assumes "dict_get kvs ''cell_type'' = Some (JStr ''markdown'')"
    and "dict_get kvs ''source'' = None \<or> dict_get kvs ''source'' = Some (JArr [])
         \<or> dict_get kvs ''source'' = Some (JStr [])"
    and "clean_loop pre [] = Inr a" and "clean_loop post [] = Inr b"
  shows "clean_notebook_cells (JArr (pre @ [JObj kvs] @ post))
           = Inr (a @ [JObj (dict_set kvs ''source'' (JArr []))] @ b)
       \<and> (\<forall>k. k \<noteq> ''source'' \<longrightarrow> dict_get (dict_set kvs ''source'' (JArr [])) k = dict_get kvs k)
       \<and> (dict_get kvs ''source'' = Some (JArr []) \<longrightarrow> dict_set kvs ''source'' (JArr []) = kvs)"
proof -
  from assms(2) have "cell_source kvs = JArr []"
    by (auto simp: cell_source_def splitlines_def splitlines_from.simps)
  with assms(1) have "clean_cell (JObj kvs) = Inr (Some (JObj (dict_set kvs ''source'' (JArr []))))"
    by (simp add: clean_cell_def)
  from clean_cells_at [OF assms(3,4) this] show ?thesis
    by (simp add: dict_get_dict_set dict_set_same)
qed

theorem clean_empty_source_witness:
  "clean_notebook_cells
     (JArr ([example_code_cell] @ [JObj [(''cell_type'', JStr ''markdown''), (''id'', JInt 1)]] @ []))
     = Inr ([example_code_cell]
            @ [JObj [(''cell_type'', JStr ''markdown''), (''id'', JInt 1), (''source'', JArr [])]] @ [])
   \<and> clean_notebook_cells
     (JArr ([] @ [JObj [(''source'', JStr []), (''cell_type'', JStr ''markdown'')]] @ []))
     = Inr ([] @ [JObj [(''source'', JArr []), (''cell_type'', JStr ''markdown'')]] @ [])
   \<and> clean_notebook_cells
     (JArr ([] @ [JObj [(''source'', JArr []), (''cell_type'', JStr ''markdown'')]] @ []))
     = Inr ([] @ [JObj [(''source'', JArr []), (''cell_type'', JStr ''markdown'')]] @ [])"
proof -
  let ?missing = "[(''cell_type'', JStr ''markdown''), (''id'', JInt 1)]"
  let ?blob = "[(''source'', JStr []), (''cell_type'', JStr ''markdown'')]"
  let ?list = "[(''source'', JArr []), (''cell_type'', JStr ''markdown'')]"
  have e: "clean_loop [] [] = Inr []" by simp
  have m1: "dict_get ?missing ''cell_type'' = Some (JStr ''markdown'')" by simp
  have m2: "dict_get ?missing ''source'' = None \<or> dict_get ?missing ''source'' = Some (JArr [])
            \<or> dict_get ?missing ''source'' = Some (JStr [])" by simp
  have b1: "dict_get ?blob ''cell_type'' = Some (JStr ''markdown'')" by simp
  have b2: "dict_get ?blob ''source'' = None \<or> dict_get ?blob ''source'' = Some (JArr [])
            \<or> dict_get ?blob ''source'' = Some (JStr [])" by simp
  have l1: "dict_get ?list ''cell_type'' = Some (JStr ''markdown'')" by simp
  have l2: "dict_get ?list ''source'' = None \<or> dict_get ?list ''source'' = Some (JArr [])
            \<or> dict_get ?list ''source'' = Some (JStr [])" by simp
  from clean_empty_source [OF m1 m2 example_code_cell_clean e]
  have 1: "clean_notebook_cells (JArr ([example_code_cell] @ [JObj ?missing] @ []))
     = Inr ([example_code_cell]
            @ [JObj [(''cell_type'', JStr ''markdown''), (''id'', JInt 1), (''source'', JArr [])]] @ [])"
    by simp
  from clean_empty_source [OF b1 b2 e e]
  have 2: "clean_notebook_cells (JArr ([] @ [JObj ?blob] @ []))
     = Inr ([] @ [JObj [(''source'', JArr []), (''cell_type'', JStr ''markdown'')]] @ [])"
    by simp
  from clean_empty_source [OF l1 l2 e e]
  have 3: "clean_notebook_cells (JArr ([] @ [JObj ?list] @ []))
     = Inr ([] @ [JObj ?list] @ [])"
    by simp
  from 1 2 3 show ?thesis by (intro conjI)
qed

text \<open>
  C5, as stated, fails: the cell is kept but not unchanged. A markdown cell whose source
  is the empty string comes out with the empty list as its source, and a markdown cell
  with no \<^verbatim>\<open>source\<close> field comes out with one.
\<close>

theorem clean_empty_source_counterexample:
  "clean_notebook_cells (JArr [JObj [(''cell_type'', JStr ''markdown''), (''source'', JStr [])]])
     = Inr [JObj [(''cell_type'', JStr ''markdown''), (''source'', JArr [])]]
   \<and> JObj [(''cell_type'', JStr ''markdown''), (''source'', JArr [])]
     \<noteq> JObj [(''cell_type'', JStr ''markdown''), (''source'', JStr [])]
   \<and> clean_notebook_cells (JArr [JObj [(''cell_type'', JStr ''markdown'')]])
     = Inr [JObj [(''cell_type'', JStr ''markdown''), (''source'', JArr [])]]
   \<and> JObj [(''cell_type'', JStr ''markdown''), (''source'', JArr [])]
     \<noteq> JObj [(''cell_type'', JStr ''markdown'')]"
  by (simp add: clean_notebook_cells_def clean_cell_def cell_source_def splitlines_def
      splitlines_from.simps)

section \<open>Cells that are not markdown\<close>

text \<open>
  C6. A cell whose \<^verbatim>\<open>cell_type\<close> is present and is not the string \<^verbatim>\<open>markdown\<close> stands
  in the output at its place exactly as it was, all fields and values included, whatever
  its source holds.
\<close>

theorem clean_keeps_non_markdown:
  assumes "dict_get kvs ''cell_type'' = Some t" and "t \<noteq> JStr ''markdown''"
    and "clean_loop pre [] = Inr a" and "clean_loop post [] = Inr b"
  shows "clean_notebook_cells (JArr (pre @ [JObj kvs] @ post)) = Inr (a @ [JObj kvs] @ b)"
proof -
  from assms(1,2) have "clean_cell (JObj kvs) = Inr (Some (JObj kvs))"
    by (simp add: clean_cell_def)
  from clean_cells_at [OF assms(3,4) this] show ?thesis by simp
qed

theorem clean_keeps_non_markdown_witness:
  "clean_notebook_cells
     (JArr ([] @ [JObj [(''cell_type'', JStr ''code''),
                       (''source'', JStr ''badge = colab-badge.svg''), (''execution_count'', JNull)]]
            @ [example_code_cell]))
   = Inr ([] @ [JObj [(''cell_type'', JStr ''code''),
                     (''source'', JStr ''badge = colab-badge.svg''), (''execution_count'', JNull)]]
          @ [example_code_cell])"
proof -
  have t: "dict_get [(''cell_type'', JStr ''code''),
                     (''source'', JStr ''badge = colab-badge.svg''), (''execution_count'', JNull)]
             ''cell_type'' = Some (JStr ''code'')" by simp
  have n: "JStr ''code'' \<noteq> JStr ''markdown''" by simp
  have e: "clean_loop [] [] = Inr []" by simp
  from clean_keeps_non_markdown [OF t n e example_code_cell_clean] show ?thesis .
qed

section \<open>The fields of the document\<close>

text \<open>
  C7. Whenever the update returns a document, the input was a dictionary and so is the
  result; leaving out the \<^verbatim>\<open>cells\<close> field, the two have the same fields with the same
  values in the same order, and looking up any key other than \<^verbatim>\<open>cells\<close> gives the
  same in both.
\<close>

theorem update_frame:
  assumes "update_document d file_path repo branch = Inr d'"
  shows "\<exists>kvs kvs'. d = JObj kvs \<and> d' = JObj kvs' \<and>
           filter (\<lambda>kv. fst kv \<noteq> ''cells'') kvs' = filter (\<lambda>kv. fst kv \<noteq> ''cells'') kvs \<and>
           (\<forall>k. k \<noteq> ''cells'' \<longrightarrow> dict_get kvs' k = dict_get kvs k)"
proof -
  from update_document_Inr [OF assms] obtain kvs cleaned where
    "d = JObj kvs"
    "d' = JObj (dict_set kvs ''cells'' (JArr (create_badge_cell repo branch file_path # cleaned)))"
    by blast
  then show ?thesis by (simp add: dict_set_others dict_get_dict_set)
qed

theorem update_frame_witness:
  "update_document example_notebook ''nb.ipynb'' ''o/r'' ''main'' = Inr example_updated
   \<and> filter (\<lambda>kv. fst kv \<noteq> ''cells'')
        [(''metadata'', JObj [(''language'', JStr ''python'')]),
         (''cells'', JArr (create_badge_cell ''o/r'' ''main'' ''nb.ipynb'' # example_cleaned)),
         (''nbformat'', JInt 4)]
     = filter (\<lambda>kv. fst kv \<noteq> ''cells'')
        [(''metadata'', JObj [(''language'', JStr ''python'')]),
         (''cells'', JArr example_cells),
         (''nbformat'', JInt 4)]"
proof -
  from update_frame [OF example_update] obtain kvs kvs' where
    a: "example_notebook = JObj kvs" and b: "example_updated = JObj kvs'" and
    f: "filter (\<lambda>kv. fst kv \<noteq> ''cells'') kvs' = filter (\<lambda>kv. fst kv \<noteq> ''cells'') kvs"
    by blast
  from a have kvs: "kvs = [(''metadata'', JObj [(''language'', JStr ''python'')]),
                          (''cells'', JArr example_cells), (''nbformat'', JInt 4)]"
    by (simp add: example_notebook_def)
  from b have kvs': "kvs' = [(''metadata'', JObj [(''language'', JStr ''python'')]),
         (''cells'', JArr (create_badge_cell ''o/r'' ''main'' ''nb.ipynb'' # example_cleaned)),
         (''nbformat'', JInt 4)]"
    by (simp add: example_updated_def)
  from f have "filter (\<lambda>kv. fst kv \<noteq> ''cells'')
        [(''metadata'', JObj [(''language'', JStr ''python'')]),
         (''cells'', JArr (create_badge_cell ''o/r'' ''main'' ''nb.ipynb'' # example_cleaned)),
         (''nbformat'', JInt 4)]
     = filter (\<lambda>kv. fst kv \<noteq> ''cells'')
        [(''metadata'', JObj [(''language'', JStr ''python'')]),
         (''cells'', JArr example_cells),
         (''nbformat'', JInt 4)]"
    unfolding kvs kvs' .
  with example_update show ?thesis by (rule conjI)
qed

section \<open>A document without cells\<close>

text \<open>
  C8. On the empty document the update returns the document whose only field is
  \<^verbatim>\<open>cells\<close>, holding the badge cell alone; and on any dictionary without a
  \<^verbatim>\<open>cells\<close> field it returns, with no exception, the same dictionary with that field
  added at the end.
\<close>

theorem update_without_cells:
  "update_document (JObj []) file_path repo branch
     = Inr (JObj [(''cells'', JArr [create_badge_cell repo branch file_path])])
   \<and> (dict_get kvs ''cells'' = None \<longrightarrow>
        update_document (JObj kvs) file_path repo branch
          = Inr (JObj (kvs @ [(''cells'', JArr [create_badge_cell repo branch file_path])])))"
  by (simp add: update_document_def dict_set_absent)

theorem update_without_cells_witness:
  "dict_get [(''nbformat'', JInt 4)] ''cells'' = None
   \<and> update_document (JObj [(''nbformat'', JInt 4)]) ''nb.ipynb'' ''o/r'' ''main''
     = Inr (JObj [(''nbformat'', JInt 4),
                  (''cells'', JArr [create_badge_cell ''o/r'' ''main'' ''nb.ipynb''])])"
proof -
  have n: "dict_get [(''nbformat'', JInt 4)] ''cells'' = None" by simp
  from update_without_cells [of "''nb.ipynb''" "''o/r''" "''main''" "[(''nbformat'', JInt 4)]"] n
  show ?thesis by simp
qed

section \<open>A file that cannot be read or parsed\<close>

text \<open>
  C9. When reading or parsing a file fails with message \<open>msg\<close>, \<^verbatim>\<open>update_notebook\<close>
  returns (no exception leaves it) with the files as they were and two more lines
  printed: the progress line, and \<^verbatim>\<open>Error reading\<close> with the file path and \<open>msg\<close>. In
  \<^verbatim>\<open>main\<close>, for a path that exists, the loop then goes on with the remaining files
  from exactly that state.
\<close>

theorem read_error_is_caught:
  assumes "load_json loads w file_path = Inl msg"
  shows "update_notebook loads dumps file_path repo branch w
           = Inr (w\<lparr>stdout := stdout w @ [''Updating badge for '' @ file_path @ '' -> '' @ branch,
                                            ''Error reading '' @ file_path @ '': '' @ msg]\<rparr>)
       \<and> (files w file_path \<noteq> None \<longrightarrow>
            main_loop loads dumps repo branch (file_path # rest) w
            = main_loop loads dumps repo branch rest
                (w\<lparr>stdout := stdout w @ [''Updating badge for '' @ file_path @ '' -> '' @ branch,
                                         ''Error reading '' @ file_path @ '': '' @ msg]\<rparr>))"
proof -
  have u: "update_notebook loads dumps file_path repo branch w
           = Inr (w\<lparr>stdout := stdout w @ [''Updating badge for '' @ file_path @ '' -> '' @ branch,
                                            ''Error reading '' @ file_path @ '': '' @ msg]\<rparr>)"
    using assms by (simp add: update_notebook_def load_json_def print_def Let_def)
  then show ?thesis by simp
qed

theorem read_error_is_caught_witness:
  "load_json example_loads example_world ''bad.ipynb'' = Inl ''Expecting value: line 1 column 1 (char 0)''
   \<and> files example_world ''bad.ipynb'' \<noteq> None
   \<and> update_notebook example_loads example_dumps ''bad.ipynb'' ''o/r'' ''main'' example_world
     = Inr (example_world\<lparr>stdout := [''Updating badge for bad.ipynb -> main'',
              ''Error reading bad.ipynb: Expecting value: line 1 column 1 (char 0)'']\<rparr>)
   \<and> main_loop example_loads example_dumps ''o/r'' ''main'' [''bad.ipynb'', ''empty.ipynb''] example_world
     = main_loop example_loads example_dumps ''o/r'' ''main'' [''empty.ipynb'']
         (example_world\<lparr>stdout := [''Updating badge for bad.ipynb -> main'',
              ''Error reading bad.ipynb: Expecting value: line 1 column 1 (char 0)'']\<rparr>)"
proof -
  have l: "load_json example_loads example_world ''bad.ipynb''
           = Inl ''Expecting value: line 1 column 1 (char 0)''"
    by (simp add: load_json_def example_loads_def example_world_def)
  have f: "files example_world ''bad.ipynb'' \<noteq> None" by (simp add: example_world_def)
  have s: "stdout example_world = []" by (simp add: example_world_def)
  from read_error_is_caught [OF l, of example_dumps "''o/r''" "''main''" "[''empty.ipynb'']"] l f s
  show ?thesis by (simp del: main_loop.simps)
qed

section \<open>A cell without a type\<close>

text \<open>
  C10. A cell with no \<^verbatim>\<open>cell_type\<close> field stands in the output at its place exactly as
  it was: its source is neither split into lines nor filtered, also when it is one string
  with badge lines in it.
\<close>

theorem clean_keeps_untyped:
  assumes "dict_get kvs ''cell_type'' = None"
    and "clean_loop pre [] = Inr a" and "clean_loop post [] = Inr b"
  shows "clean_notebook_cells (JArr (pre @ [JObj kvs] @ post)) = Inr (a @ [JObj kvs] @ b)"
proof -
  from assms(1) have "clean_cell (JObj kvs) = Inr (Some (JObj kvs))"
    by (simp add: clean_cell_def)
  from clean_cells_at [OF assms(2,3) this] show ?thesis by simp
qed

theorem clean_keeps_untyped_witness:
  "clean_notebook_cells
     (JArr ([example_code_cell]
            @ [JObj [(''source'', JStr (''<img src=colab-badge.svg>'' @ [CHR 0x0A] @ ''text''))]]
            @ []))
   = Inr ([example_code_cell]
          @ [JObj [(''source'', JStr (''<img src=colab-badge.svg>'' @ [CHR 0x0A] @ ''text''))]]
          @ [])"
proof -
  have t: "dict_get [(''source'', JStr (''<img src=colab-badge.svg>'' @ [CHR 0x0A] @ ''text''))]
             ''cell_type'' = None" by simp
  have e: "clean_loop [] [] = Inr []" by simp
  from clean_keeps_untyped [OF t example_code_cell_clean e] show ?thesis .
qed

end
